theory Spec2Isabelle
  imports Main
begin

section \<open>Text helpers\<close>

text \<open>
  Python strings are modelled as \<open>string\<close> (lists of 8-bit characters). The character
  classes below are the ASCII part of what \<open>str.lower\<close>, \<open>str.isspace\<close>,
  \<open>str.isdigit\<close> and the \<open>re\<close> module's \<open>\s\<close> and \<open>\w\<close> accept; text outside ASCII
  is outside the model.
\<close>

definition code :: "char \<Rightarrow> nat" where
  "code c = of_char c"

definition lower_chr :: "char \<Rightarrow> char" where
  "lower_chr c = (if 65 \<le> code c \<and> code c \<le> 90 then char_of (code c + 32) else c)"

definition lower :: "string \<Rightarrow> string" where
  "lower s = map lower_chr s"

definition is_digit :: "char \<Rightarrow> bool" where
  "is_digit c \<longleftrightarrow> 48 \<le> code c \<and> code c \<le> 57"

definition is_lower_alnum :: "char \<Rightarrow> bool" where
  "is_lower_alnum c \<longleftrightarrow> (97 \<le> code c \<and> code c \<le> 122) \<or> is_digit c"

definition is_space :: "char \<Rightarrow> bool" where
  "is_space c \<longleftrightarrow> (9 \<le> code c \<and> code c \<le> 13) \<or> (28 \<le> code c \<and> code c \<le> 32)"

definition is_word_chr :: "char \<Rightarrow> bool" where
  "is_word_chr c \<longleftrightarrow>
     is_lower_alnum c \<or> (65 \<le> code c \<and> code c \<le> 90) \<or> c = CHR ''_''"

definition strip :: "string \<Rightarrow> string" where
  "strip s = rev (dropWhile is_space (rev (dropWhile is_space s)))"

text \<open>\<open>sub in s\<close> on Python strings: \<open>sub\<close> occurs in \<open>s\<close> as a contiguous substring.\<close>

fun str_in :: "string \<Rightarrow> string \<Rightarrow> bool" where
  "str_in sub [] = (sub = [])"
| "str_in sub (c # cs) = (take (length sub) (c # cs) = sub \<or> str_in sub cs)"

text \<open>
  \<open>normalize_name\<close>: \<open>re.sub(r"[^a-z0-9]+", "", s.lower())\<close>. Replacing every maximal run
  of characters outside \<open>[a-z0-9]\<close> by the empty string keeps exactly the characters
  inside the class, in order.
\<close>

definition normalize_name :: "string \<Rightarrow> string" where
  "normalize_name s = filter is_lower_alnum (lower s)"


section \<open>Numeric suffix expansion\<close>

text \<open>
  \<open>expand_numbers_suffix\<close> first asks whether the stripped text contains one of
  \<open>","\<close>, \<open>" and "\<close>, \<open>"-"\<close>, \<open>" to "\<close>.
\<close>

definition has_separator :: "string \<Rightarrow> bool" where
  "has_separator text \<longleftrightarrow> list_ex (\<lambda>x. str_in x text) ['','', '' and '', ''-'', '' to '']"

text \<open>
  The character class \<open>[0-9 ,\-andto]\<close> under \<open>re.IGNORECASE\<close>.
\<close>

definition in_suffix_class :: "char \<Rightarrow> bool" where
  "in_suffix_class c \<longleftrightarrow> is_digit c \<or> lower_chr c \<in> set '' ,-andto''"

text \<open>
  \<open>re.match(r"(.+?)\s+([0-9 ,\-andto]+)$", text, flags=re.IGNORECASE)\<close>, written out as
  the backtracking search the \<open>re\<close> module performs. Group 1 is lazy: it starts with one
  character and grows by one character at a time, never over a newline (\<open>.\<close> without
  \<open>DOTALL\<close>). For each group 1, \<open>\s+\<close> is greedy: it takes the whole run of
  whitespace that follows and gives characters back one at a time, keeping at least one.
  Group 2 must then be a non-empty run of class characters reaching the end of the text
  (the text is stripped, so \<open>$\<close> is the end of the text). \<open>suffix_after rest\<close> is
  group 2 for the first split that succeeds when \<open>rest\<close> is what follows group 1.
\<close>

definition suffix_after :: "string \<Rightarrow> string option" where
  "suffix_after rest =
     (let ws = takeWhile is_space rest; tl = dropWhile is_space rest
      in find (\<lambda>g2. g2 \<noteq> [] \<and> list_all in_suffix_class g2)
           (map (\<lambda>k. drop k ws @ tl) (rev [1..<Suc (length ws)])))"

fun match_suffix_from :: "string \<Rightarrow> string \<Rightarrow> (string \<times> string) option" where
  "match_suffix_from g1 [] = None"
| "match_suffix_from g1 (c # cs) =
     (case suffix_after (c # cs) of
        Some g2 \<Rightarrow> Some (g1, g2)
      | None \<Rightarrow> if c = CHR 0x0A then None else match_suffix_from (g1 @ [c]) cs)"

definition match_suffix :: "string \<Rightarrow> (string \<times> string) option" where
  "match_suffix text =
     (case text of
        [] \<Rightarrow> None
      | c # cs \<Rightarrow> if c = CHR 0x0A then None else match_suffix_from [c] cs)"

text \<open>
  \<open>re.sub(r"\bWORD\b", repl, s, flags=re.IGNORECASE)\<close> for a word of letters: scanning
  from the left, an occurrence of the word (in any case) is replaced when the character
  before it is not a word character (or it starts the string) and the character after
  it is not a word character (or it ends the string). \<open>prev\<close> tells whether the
  character before the current position is a word character.
\<close>

fun re_sub_word :: "string \<Rightarrow> string \<Rightarrow> bool \<Rightarrow> string \<Rightarrow> string" where
  "re_sub_word w repl prev [] = []"
| "re_sub_word w repl prev (c # cs) =
     (if \<not> prev \<and> lower (take (length w) (c # cs)) = w
         \<and> (case drop (length w) (c # cs) of [] \<Rightarrow> True | d # _ \<Rightarrow> \<not> is_word_chr d)
      then repl @ re_sub_word w repl (is_word_chr (last w)) (drop (length w - 1) cs)
      else c # re_sub_word w repl (is_word_chr c) cs)"

text \<open>
  \<open>re.split(r"[,\s]+", s)\<close>: the pieces between maximal runs of separators, the empty
  pieces at either end included. \<open>cur\<close> is the piece being read.
\<close>

definition is_token_sep :: "char \<Rightarrow> bool" where
  "is_token_sep c \<longleftrightarrow> c = CHR '','' \<or> is_space c"

function re_split :: "(char \<Rightarrow> bool) \<Rightarrow> string \<Rightarrow> string \<Rightarrow> string list" where
  "re_split sep cur [] = [cur]"
| "re_split sep cur (c # cs) =
     (if sep c then cur # re_split sep [] (dropWhile sep cs)
      else re_split sep (cur @ [c]) cs)"
  by pat_completeness auto
termination
  by (relation "measure (\<lambda>(sep, cur, s). length s)")
     (auto simp: length_dropWhile_le less_Suc_eq_le)

text \<open>\<open>token.split("-", 1)\<close> for a token that contains a hyphen.\<close>

definition split_hyphen :: "string \<Rightarrow> string \<times> string" where
  "split_hyphen token =
     (takeWhile (\<lambda>c. c \<noteq> CHR ''-'') token, drop 1 (dropWhile (\<lambda>c. c \<noteq> CHR ''-'') token))"

definition isdigit :: "string \<Rightarrow> bool" where
  "isdigit s \<longleftrightarrow> s \<noteq> [] \<and> list_all is_digit s"

text \<open>\<open>int(s)\<close> on a string of decimal digits.\<close>

definition int_of_digits :: "string \<Rightarrow> nat" where
  "int_of_digits s = foldl (\<lambda>n c. 10 * n + (code c - 48)) 0 s"

text \<open>
  The body of the loop over the tokens. The source collects the numbers in a set;
  here they are collected in a list, in the order they are added, and sorted without
  duplicates at the end.
\<close>

definition token_numbers :: "string \<Rightarrow> nat list" where
  "token_numbers tok =
     (let token = strip tok in
      if token = [] then []
      else if CHR ''-'' \<in> set token then
        (let a = strip (fst (split_hyphen token)); b = strip (snd (split_hyphen token)) in
         if isdigit a \<and> isdigit b then
           (let start = int_of_digits a; end = int_of_digits b in
            if start \<le> end then [start..<end + 1] else [])
         else [])
      else if isdigit token then [int_of_digits token] else [])"

definition parse_numbers :: "string \<Rightarrow> nat list" where
  "parse_numbers nums_part =
     (let nums1 = re_sub_word ''and'' '','' False nums_part;
          nums2 = re_sub_word ''to'' ''-'' False nums1
      in concat (map token_numbers (re_split is_token_sep [] nums2)))"

text \<open>Decimal rendering of a number, as the f-string does.\<close>

definition digit_chr :: "nat \<Rightarrow> char" where
  "digit_chr d = char_of (48 + d)"

function str_of_nat :: "nat \<Rightarrow> string" where
  "str_of_nat n = (if n < 10 then [digit_chr n] else str_of_nat (n div 10) @ [digit_chr (n mod 10)])"
  by pat_completeness auto
termination
  by (relation "measure id") auto

declare str_of_nat.simps [simp del]

definition expand_numbers_suffix :: "string \<Rightarrow> string list" where
  "expand_numbers_suffix raw_target =
     (let text = strip raw_target in
      if \<not> has_separator text then [text]
      else case match_suffix text of
        None \<Rightarrow> [text]
      | Some (g1, nums_part) \<Rightarrow>
          (let base = strip g1; numbers = parse_numbers nums_part in
           if numbers = [] then [text]
           else map (\<lambda>n. base @ '' '' @ str_of_nat n) (sort (remdups numbers))))"


section \<open>Configuration objects and the persisted file\<close>

text \<open>
  A Python dictionary keeps its keys in insertion order, so it is an association list
  with distinct keys: assigning to a key that is present replaces the value in place,
  assigning to a new key appends.
\<close>

fun dict_setitem :: "('k \<times> 'v) list \<Rightarrow> 'k \<Rightarrow> 'v \<Rightarrow> ('k \<times> 'v) list" where
  "dict_setitem [] k v = [(k, v)]"
| "dict_setitem ((k', v') # d) k v =
     (if k' = k then (k', v) # d else (k', v') # dict_setitem d k v)"

definition dict_delitem :: "('k \<times> 'v) list \<Rightarrow> 'k \<Rightarrow> ('k \<times> 'v) list" where
  "dict_delitem d k = filter (\<lambda>kv. fst kv \<noteq> k) d"

type_synonym alias_dict = "(string \<times> string) list"
type_synonym group_dict = "(string \<times> string list) list"

text \<open>
  The configuration is a dictionary \<open>{"aliases": {...}, "groups": {...}}\<close> whose two
  values are dictionary objects that the handlers mutate in place. The objects live in
  a store, and a configuration holds two references into it. \<open>DEFAULT_CONFIG\<close> is a
  module-level configuration; its two dictionaries are the objects at reference 0,
  empty when the process starts.
\<close>

type_synonym ref = nat

record store =
  alias_dicts :: "ref \<Rightarrow> alias_dict"
  group_dicts :: "ref \<Rightarrow> group_dict"
  next_ref :: ref

record config =
  aliases :: ref
  groups :: ref

definition DEFAULT_CONFIG :: config where
  "DEFAULT_CONFIG = \<lparr>aliases = 0, groups = 0\<rparr>"

definition initial_store :: store where
  "initial_store = \<lparr>alias_dicts = (\<lambda>r. []), group_dicts = (\<lambda>r. []), next_ref = 1\<rparr>"

text \<open>
  What \<open>load_config\<close> finds at \<open>CONFIG_PATH\<close>: no file, a file that cannot be opened or
  read, a file that is not JSON, or a parsed JSON document. A document is either not a
  dictionary, or a dictionary in which each of the two sections may be absent; a
  section that is present has the shape the bot writes.
\<close>

datatype document = Not_a_dict | Dict "alias_dict option" "group_dict option"

datatype file_state = Missing | Unreadable | Malformed | Parsed document

text \<open>
  \<open>load_config\<close>. \<open>DEFAULT_CONFIG.copy()\<close> is a shallow copy: a new outer dictionary
  holding the same two inner dictionary objects, so the configuration returned on the
  fallback paths has the references of \<open>DEFAULT_CONFIG\<close>. A parsed dictionary brings
  new objects, and \<open>setdefault\<close> supplies a new empty dictionary for an absent section.
\<close>

definition load_config :: "store \<Rightarrow> file_state \<Rightarrow> config \<times> store" where
  "load_config h f =
     (case f of
        Missing \<Rightarrow> (DEFAULT_CONFIG, h)
      | Unreadable \<Rightarrow> (DEFAULT_CONFIG, h)
      | Malformed \<Rightarrow> (DEFAULT_CONFIG, h)
      | Parsed Not_a_dict \<Rightarrow> (DEFAULT_CONFIG, h)
      | Parsed (Dict a g) \<Rightarrow>
          (let r = next_ref h
           in (\<lparr>aliases = r, groups = r\<rparr>,
               h\<lparr>alias_dicts := (alias_dicts h)(r := (case a of None \<Rightarrow> [] | Some d \<Rightarrow> d)),
                 group_dicts := (group_dicts h)(r := (case g of None \<Rightarrow> [] | Some d \<Rightarrow> d)),
                 next_ref := Suc r\<rparr>)))"

text \<open>The alias and group dictionaries a configuration refers to.\<close>

definition cfg_aliases :: "store \<Rightarrow> config \<Rightarrow> alias_dict" where
  "cfg_aliases h c = alias_dicts h (aliases c)"

definition cfg_groups :: "store \<Rightarrow> config \<Rightarrow> group_dict" where
  "cfg_groups h c = group_dicts h (groups c)"

text \<open>
  \<open>save_config\<close> overwrites the file with the JSON text of the configuration; the file
  then holds a dictionary with both sections.
\<close>

definition save_config :: "store \<Rightarrow> config \<Rightarrow> file_state" where
  "save_config h c = Parsed (Dict (Some (cfg_aliases h c)) (Some (cfg_groups h c)))"


section \<open>Entity catalog\<close>

text \<open>
  One record of the backend's state list: the entity id and the \<open>friendly_name\<close>
  attribute, which may be absent.
\<close>

record item =
  item_entity_id :: string
  item_friendly_name :: "string option"

record entity =
  entity_id :: string
  friendly :: string
  norm_friendly :: string
  norm_entity :: string
  domain :: string

text \<open>
  The bot: its configuration \<open>self.cfg\<close> and its lookup structures
  (\<open>self.alias_lookup\<close>, \<open>self.group_lookup\<close>, \<open>self.entities\<close>,
  \<open>self.exact_index\<close>). The two lookups map a normalized name to the
  pretty name and the alias's entity id, or the group's members.
\<close>

record bot =
  cfg :: config
  alias_lookup :: "string \<rightharpoonup> string \<times> string"
  group_lookup :: "string \<rightharpoonup> string \<times> string list"
  entities :: "entity list"
  exact_index :: "string \<rightharpoonup> string"

definition index_item :: "item \<Rightarrow> entity" where
  "index_item it =
     (let eid = item_entity_id it;
          fr = (case item_friendly_name it of
                  None \<Rightarrow> eid
                | Some f \<Rightarrow> if f = [] then eid else f)
      in \<lparr>entity_id = eid, friendly = fr,
          norm_friendly = normalize_name fr, norm_entity = normalize_name eid,
          domain = (if CHR ''.'' \<in> set eid then takeWhile (\<lambda>c. c \<noteq> CHR ''.'') eid else [])\<rparr>)"

text \<open>
  The loop of \<open>build_entity_index\<close> over the fetched records; a later record overwrites
  the exact-index entries of an earlier one with the same normalized string.
\<close>

fun index_items :: "item list \<Rightarrow> entity list \<Rightarrow> (string \<rightharpoonup> string)
    \<Rightarrow> entity list \<times> (string \<rightharpoonup> string)" where
  "index_items [] ents idx = (ents, idx)"
| "index_items (it # its) ents idx =
     (let ent = index_item it;
          idx1 = (if norm_friendly ent \<noteq> [] then idx(norm_friendly ent \<mapsto> entity_id ent) else idx);
          idx2 = (if norm_entity ent \<noteq> [] then idx1(norm_entity ent \<mapsto> entity_id ent) else idx1)
      in index_items its (ents @ [ent]) idx2)"

definition build_entity_index :: "bot \<Rightarrow> item list \<Rightarrow> bot" where
  "build_entity_index b data =
     (case index_items data [] Map.empty of
        (ents, idx) \<Rightarrow> b\<lparr>entities := ents, exact_index := idx\<rparr>)"


section \<open>Resolver\<close>

definition preferred_domains :: "string list" where
  "preferred_domains = [''light'', ''switch'', ''fan'']"

text \<open>
  \<open>_resolve_against_ha\<close>. The result is the matched entity id (\<open>None\<close> when no single
  match was isolated) and the candidate list.
\<close>

definition resolve_against_ha :: "bot \<Rightarrow> string \<Rightarrow> string option \<times> entity list" where
  "resolve_against_ha b name =
     (let norm_input = normalize_name name in
      if norm_input = [] then (None, [])
      else case exact_index b norm_input of
        Some eid \<Rightarrow> (Some eid, [])
      | None \<Rightarrow>
         (let candidates = filter (\<lambda>ent. str_in norm_input (norm_friendly ent)
                                       \<or> str_in norm_input (norm_entity ent)) (entities b);
              preferred = filter (\<lambda>e. domain e \<in> set preferred_domains) candidates
          in if candidates \<noteq> [] \<and> length preferred = 1
             then (Some (entity_id (hd preferred)), preferred)
             else
              (let candidates2 = (if candidates \<noteq> [] \<and> length preferred > 1
                                  then preferred else candidates);
                   tokens = filter (\<lambda>t. t \<noteq> []) (re_split is_space [] (lower name))
               in if candidates2 = [] \<and> tokens \<noteq> []
                  then
                   (let token_candidates =
                          filter (\<lambda>ent. list_all (\<lambda>tok. str_in tok (lower (friendly ent))) tokens)
                            (entities b)
                    in if length token_candidates = 1
                       then (Some (entity_id (hd token_candidates)), token_candidates)
                       else (None, if token_candidates \<noteq> [] then token_candidates
                                   else candidates2))
                  else (None, candidates2))))"

text \<open>
  The loop over a group's members, with the list \<open>expanded\<close> it appends to. A fuzzy
  match that is \<open>None\<close> or the empty string is falsy and contributes nothing.
\<close>

fun expand_members :: "bot \<Rightarrow> string list \<Rightarrow> string list \<Rightarrow> string list" where
  "expand_members b [] expanded = expanded"
| "expand_members b (m # ms) expanded =
     (case alias_lookup b (normalize_name m) of
        Some (pretty, ent) \<Rightarrow> expand_members b ms (expanded @ [ent])
      | None \<Rightarrow>
          if CHR ''.'' \<in> set m then expand_members b ms (expanded @ [m])
          else (case fst (resolve_against_ha b m) of
                  Some ent \<Rightarrow> if ent \<noteq> [] then expand_members b ms (expanded @ [ent])
                              else expand_members b ms expanded
                | None \<Rightarrow> expand_members b ms expanded))"

text \<open>
  \<open>list(dict.fromkeys(xs))\<close>: the keys of a dictionary filled from \<open>xs\<close>; a key that
  is already present keeps its place.
\<close>

definition dict_fromkeys :: "'a list \<Rightarrow> 'a list" where
  "dict_fromkeys xs = foldl (\<lambda>keys x. if x \<in> set keys then keys else keys @ [x]) [] xs"

definition resolve_single_target :: "bot \<Rightarrow> string \<Rightarrow> string list \<times> entity list" where
  "resolve_single_target b target_name =
     (let norm = normalize_name target_name in
      case group_lookup b norm of
        Some (pretty, members) \<Rightarrow> (dict_fromkeys (expand_members b members []), [])
      | None \<Rightarrow>
         (case alias_lookup b norm of
            Some (pretty, ent) \<Rightarrow> ([ent], [])
          | None \<Rightarrow>
             (case resolve_against_ha b target_name of
                (ent, cands) \<Rightarrow>
                  ((case ent of None \<Rightarrow> [] | Some e \<Rightarrow> if e \<noteq> [] then [e] else []), cands))))"


section \<open>Command dispatcher\<close>

text \<open>
  The lines of the reply built by \<open>on_message\<close> for a \<open>turn on\<close> / \<open>turn off\<close>
  command, as data: a requested command (action text, name, entity id), a webhook
  answer other than 200 (name, entity id, status), the close matches offered for a
  name (at most five), and the plain no-match line.
\<close>

datatype reply_line =
    Requested string string string
  | Webhook_status string string int
  | Close_matches string "entity list"
  | No_match string
  | Nothing_to_do

text \<open>
  \<open>send_webhook\<close> posts to the backend and returns the HTTP status; the backend is a
  parameter \<open>send\<close> of the model, taking the entity id, the command and the user.
\<close>

fun send_commands :: "(string \<Rightarrow> string \<Rightarrow> string \<Rightarrow> int) \<Rightarrow> string \<Rightarrow> string \<Rightarrow> string
    \<Rightarrow> string list \<Rightarrow> reply_line list \<times> reply_line list \<Rightarrow> reply_line list \<times> reply_line list" where
  "send_commands send user action_text name [] (successes, failures) = (successes, failures)"
| "send_commands send user action_text name (eid # eids) (successes, failures) =
     (let cmd = (if action_text = ''turn on'' then ''turn_on'' else ''turn_off'');
          status = send eid cmd user
      in if status = 200
         then send_commands send user action_text name eids
                (successes @ [Requested action_text name eid], failures)
         else send_commands send user action_text name eids
                (successes, failures @ [Webhook_status name eid status]))"

fun dispatch_names :: "bot \<Rightarrow> (string \<Rightarrow> string \<Rightarrow> string \<Rightarrow> int) \<Rightarrow> string \<Rightarrow> string
    \<Rightarrow> string list \<Rightarrow> reply_line list \<times> reply_line list \<Rightarrow> reply_line list \<times> reply_line list" where
  "dispatch_names b send user action_text [] (successes, failures) = (successes, failures)"
| "dispatch_names b send user action_text (name # names) (successes, failures) =
     (case resolve_single_target b name of
        (entity_ids, candidates) \<Rightarrow>
          if entity_ids = [] then
            (if candidates \<noteq> []
             then dispatch_names b send user action_text names
                    (successes, failures @ [Close_matches name (take 5 candidates)])
             else dispatch_names b send user action_text names
                    (successes, failures @ [No_match name]))
          else dispatch_names b send user action_text names
                 (send_commands send user action_text name entity_ids (successes, failures)))"

text \<open>
  The natural-language branch of \<open>on_message\<close>, from the action text and the raw target
  that the command pattern extracted.
\<close>

definition dispatch :: "bot \<Rightarrow> (string \<Rightarrow> string \<Rightarrow> string \<Rightarrow> int) \<Rightarrow> string \<Rightarrow> string
    \<Rightarrow> string \<Rightarrow> reply_line list" where
  "dispatch b send user action_text target_raw =
     (case dispatch_names b send user action_text (expand_numbers_suffix target_raw) ([], []) of
        (successes, failures) \<Rightarrow>
          if successes @ failures = [] then [Nothing_to_do] else successes @ failures)"


section \<open>Admin commands\<close>

text \<open>
  \<open>parse_quoted_name\<close>. Quoted: the name runs to the next occurrence of the opening
  quote (\<open>(.*?)\<close> with \<open>DOTALL\<close>), the remainder is what follows; without a closing
  quote the rest of the text is the name. Unquoted: \<open>(\S+)\s*(.*)$\<close> takes the first
  run of non-space characters as the name, and matches only when no newline is left
  after the whitespace that follows it.
\<close>

definition parse_quoted_name :: "string \<Rightarrow> string option \<times> string" where
  "parse_quoted_name rest0 =
     (let rest = strip rest0 in
      case rest of
        [] \<Rightarrow> (None, [])
      | q # after \<Rightarrow>
          if q = CHR 0x27 \<or> q = CHR 0x22 then
            (if q \<in> set after
             then (Some (strip (takeWhile (\<lambda>c. c \<noteq> q) after)),
                   strip (drop 1 (dropWhile (\<lambda>c. c \<noteq> q) after)))
             else (Some (strip after), []))
          else
            (let name = takeWhile (\<lambda>c. \<not> is_space c) rest;
                 remainder = dropWhile is_space (dropWhile (\<lambda>c. \<not> is_space c) rest)
             in if CHR 0x0A \<in> set remainder then (None, []) else (Some name, strip remainder)))"

text \<open>\<open>split_members\<close>: the tokens between runs of commas and whitespace.\<close>

definition split_members :: "string \<Rightarrow> string list" where
  "split_members text = filter (\<lambda>tok. tok \<noteq> []) (re_split is_token_sep [] (strip text))"

text \<open>\<open>s.split()\<close>: the tokens between runs of whitespace.\<close>

definition py_split :: "string \<Rightarrow> string list" where
  "py_split s = filter (\<lambda>tok. tok \<noteq> []) (re_split is_space [] s)"

text \<open>
  \<open>rebuild_lookups_from_cfg\<close>: both lookups are cleared and filled again from the
  configuration, in the order of its entries; an entry whose name normalizes to the
  empty string is left out, and a later entry replaces an earlier one with the same
  normalized name.
\<close>

definition add_lookup :: "(string \<rightharpoonup> string \<times> 'v) \<Rightarrow> string \<times> 'v \<Rightarrow> (string \<rightharpoonup> string \<times> 'v)" where
  "add_lookup m kv =
     (let norm = normalize_name (fst kv)
      in if norm \<noteq> [] then m(norm \<mapsto> (fst kv, snd kv)) else m)"

definition rebuild_lookups_from_cfg :: "store \<Rightarrow> bot \<Rightarrow> bot" where
  "rebuild_lookups_from_cfg h b =
     b\<lparr>alias_lookup := foldl add_lookup Map.empty (cfg_aliases h (cfg b)),
       group_lookup := foldl add_lookup Map.empty (cfg_groups h (cfg b))\<rparr>"

text \<open>
  The running process: the store of dictionary objects, the configuration file, and
  the bot.
\<close>

record process =
  heap :: store
  disk :: file_state
  self :: bot

text \<open>\<open>HABot.__init__\<close> in a process whose store is \<open>h\<close> and whose file is \<open>f\<close>.\<close>

definition init_bot :: "store \<Rightarrow> file_state \<Rightarrow> process" where
  "init_bot h f =
     (case load_config h f of
        (c, h') \<Rightarrow>
          \<lparr>heap = h', disk = f,
           self = \<lparr>cfg = c, alias_lookup = Map.empty, group_lookup = Map.empty,
                   entities = [], exact_index = Map.empty\<rparr>\<rparr>)"

text \<open>
  \<open>on_ready\<close>: the configuration is loaded again and the lookups are rebuilt; the
  entity index is rebuilt from the fetched records, and kept as it is when the fetch
  fails (\<open>None\<close>).
\<close>

definition on_ready :: "process \<Rightarrow> item list option \<Rightarrow> process" where
  "on_ready p fetched =
     (case load_config (heap p) (disk p) of
        (c, h') \<Rightarrow>
          (let b1 = rebuild_lookups_from_cfg h' ((self p)\<lparr>cfg := c\<rparr>);
               b2 = (case fetched of None \<Rightarrow> b1 | Some data \<Rightarrow> build_entity_index b1 data)
           in p\<lparr>heap := h', self := b2\<rparr>))"

text \<open>
  What every mutating command does after changing a dictionary: \<open>save_config\<close>, then
  \<open>rebuild_lookups_from_cfg\<close>.
\<close>

definition save_and_rebuild :: "process \<Rightarrow> store \<Rightarrow> process" where
  "save_and_rebuild p h' =
     p\<lparr>heap := h', disk := save_config h' (cfg (self p)),
       self := rebuild_lookups_from_cfg h' (self p)\<rparr>"

text \<open>
  The loop of the delete commands over a snapshot of the keys: every entry whose
  normalized name is \<open>norm\<close> is deleted, and \<open>deleted\<close> records whether there was one.
\<close>

fun delete_matching :: "string \<Rightarrow> string list \<Rightarrow> (string \<times> 'v) list \<Rightarrow> bool
    \<Rightarrow> (string \<times> 'v) list \<times> bool" where
  "delete_matching norm [] d deleted = (d, deleted)"
| "delete_matching norm (pretty # keys) d deleted =
     (if normalize_name pretty = norm
      then delete_matching norm keys (dict_delitem d pretty) True
      else delete_matching norm keys d deleted)"

text \<open>The messages the admin commands send, as data.\<close>

datatype reply =
    No_aliases_saved
  | Alias_listing alias_dict
  | Usage_alias_add
  | Alias_saved string string
  | Usage_alias_del
  | Alias_removed
  | Alias_not_found
  | Usage_alias
  | No_groups_saved
  | Group_listing group_dict
  | Usage_group_show
  | Group_members string "string list"
  | Group_not_found
  | Usage_group_mode string
  | Provide_members
  | Group_saved string string nat
  | Usage_group_del
  | Group_removed
  | Usage_group
  | Raised_IndexError

definition handle_alias_command :: "process \<Rightarrow> string \<Rightarrow> process \<times> reply" where
  "handle_alias_command p content =
     (let tail = strip (drop (length ''!alias'') (strip content));
          h = heap p; c = cfg (self p); d = cfg_aliases h c
      in
      if tail = [] \<or> tail = ''list'' then
        (if d = [] then (p, No_aliases_saved) else (p, Alias_listing d))
      else if take 3 tail = ''add'' then
        (case parse_quoted_name (drop 3 tail) of
           (None, rest) \<Rightarrow> (p, Usage_alias_add)
         | (Some name, rest) \<Rightarrow>
             if name = [] \<or> rest = [] then (p, Usage_alias_add)
             else (case py_split rest of
                     [] \<Rightarrow> (p, Raised_IndexError)
                   | eid # others \<Rightarrow>
                       (save_and_rebuild p
                          (h\<lparr>alias_dicts := (alias_dicts h)(aliases c := dict_setitem d name eid)\<rparr>),
                        Alias_saved name eid)))
      else if take 3 tail = ''del'' then
        (case parse_quoted_name (drop 3 tail) of
           (None, rest) \<Rightarrow> (p, Usage_alias_del)
         | (Some name, rest) \<Rightarrow>
             if name = [] then (p, Usage_alias_del)
             else (case delete_matching (normalize_name name) (map fst d) d False of
                     (d', deleted) \<Rightarrow>
                       (save_and_rebuild p (h\<lparr>alias_dicts := (alias_dicts h)(aliases c := d')\<rparr>),
                        if deleted then Alias_removed else Alias_not_found)))
      else (p, Usage_alias))"

definition handle_group_command :: "process \<Rightarrow> string \<Rightarrow> process \<times> reply" where
  "handle_group_command p content =
     (let tail = strip (drop (length ''!group'') (strip content));
          h = heap p; c = cfg (self p); d = cfg_groups h c
      in
      if tail = [] \<or> tail = ''list'' then
        (if d = [] then (p, No_groups_saved) else (p, Group_listing d))
      else if take 4 tail = ''show'' then
        (case parse_quoted_name (drop 4 tail) of
           (None, rest) \<Rightarrow> (p, Usage_group_show)
         | (Some name, rest) \<Rightarrow>
             if name = [] then (p, Usage_group_show)
             else (case find (\<lambda>kv. normalize_name (fst kv) = normalize_name name) d of
                     Some (pretty, members) \<Rightarrow> (p, Group_members pretty members)
                   | None \<Rightarrow> (p, Group_not_found)))
      else if take 3 tail = ''set'' \<or> take 3 tail = ''add'' then
        (let mode = (if take 3 tail = ''set'' then ''set'' else ''add'') in
         case parse_quoted_name (drop (length mode) tail) of
           (None, rest) \<Rightarrow> (p, Usage_group_mode mode)
         | (Some name, rest) \<Rightarrow>
             if name = [] then (p, Usage_group_mode mode)
             else
              (let members = split_members rest in
               if members = [] then (p, Provide_members)
               else
                (let existing_key = find (\<lambda>pretty. normalize_name pretty = normalize_name name)
                                      (map fst d);
                     key = (case existing_key of
                              None \<Rightarrow> name
                            | Some k \<Rightarrow> if k \<noteq> [] then k else name);
                     current = (case map_of d key of None \<Rightarrow> [] | Some ms \<Rightarrow> ms);
                     d' = (if mode = ''set'' then dict_setitem d key members
                           else dict_setitem d key (current @ members))
                 in (save_and_rebuild p (h\<lparr>group_dicts := (group_dicts h)(groups c := d')\<rparr>),
                     Group_saved name mode (length members)))))
      else if take 3 tail = ''del'' then
        (case parse_quoted_name (drop 3 tail) of
           (None, rest) \<Rightarrow> (p, Usage_group_del)
         | (Some name, rest) \<Rightarrow>
             if name = [] then (p, Usage_group_del)
             else (case delete_matching (normalize_name name) (map fst d) d False of
                     (d', deleted) \<Rightarrow>
                       (save_and_rebuild p (h\<lparr>group_dicts := (group_dicts h)(groups c := d')\<rparr>),
                        if deleted then Group_removed else Group_not_found)))
      else (p, Usage_group))"


section \<open>The resolver in the words of the specification\<close>

text \<open>
  What one member of a group contributes: the entity id of the alias it names; else
  the member itself when it contains the domain separator; else the single best fuzzy
  match in the catalog, and nothing when there is none (a match that is the empty
  string counts as none, as in the code's truth test).
\<close>

definition member_ids :: "bot \<Rightarrow> string \<Rightarrow> string list" where
  "member_ids b m =
     (case alias_lookup b (normalize_name m) of
        Some (pretty, ent) \<Rightarrow> [ent]
      | None \<Rightarrow>
          if CHR ''.'' \<in> set m then [m]
          else (case fst (resolve_against_ha b m) of
                  None \<Rightarrow> []
                | Some ent \<Rightarrow> if ent = [] then [] else [ent]))"

text \<open>Removing duplicates so that each element stays at its first occurrence.\<close>

fun keep_first :: "'a list \<Rightarrow> 'a list" where
  "keep_first [] = []"
| "keep_first (x # xs) = x # keep_first (filter (\<lambda>y. y \<noteq> x) xs)"

text \<open>
  The catalog entities whose normalized label or normalized id contains the normalized
  input, and the restriction of a list of entities to the preferred categories.
\<close>

definition substring_matches :: "bot \<Rightarrow> string \<Rightarrow> entity list" where
  "substring_matches b n =
     filter (\<lambda>e. str_in n (norm_friendly e) \<or> str_in n (norm_entity e)) (entities b)"

definition preferred_only :: "entity list \<Rightarrow> entity list" where
  "preferred_only es = filter (\<lambda>e. domain e \<in> {''light'', ''switch'', ''fan''}) es"


section \<open>Example states\<close>

text \<open>
  A catalog of two entities, \<open>sensor.kitchen_temp\<close> labelled \<open>Kitchen Temp\<close> and
  \<open>light.kitchen\<close> labelled \<open>Kitchen Light\<close>, indexed for a bot without aliases or
  groups.
\<close>

definition kitchen_items :: "item list" where
  "kitchen_items =
     [\<lparr>item_entity_id = ''sensor.kitchen_temp'', item_friendly_name = Some ''Kitchen Temp''\<rparr>,
      \<lparr>item_entity_id = ''light.kitchen'', item_friendly_name = Some ''Kitchen Light''\<rparr>]"

definition kitchen_bot :: bot where
  "kitchen_bot =
     build_entity_index
       \<lparr>cfg = DEFAULT_CONFIG, alias_lookup = Map.empty, group_lookup = Map.empty,
        entities = [], exact_index = Map.empty\<rparr>
       kitchen_items"

text \<open>
  The same catalog for a bot with two aliases and three groups; \<open>Lamp\<close> names both an
  alias and a group, and no member of the group \<open>Attic\<close> resolves.
\<close>

definition home_bot :: bot where
  "home_bot =
     kitchen_bot
       \<lparr>alias_lookup :=
          [''kitchenlight'' \<mapsto> (''Kitchen Light'', ''light.kitchen''),
           ''lamp'' \<mapsto> (''Lamp'', ''light.lamp'')],
        group_lookup :=
          [''downstairs'' \<mapsto>
             (''Downstairs'', [''Kitchen Light'', ''switch.fan1'', ''kitchen'', ''zzz'', ''switch.fan1'']),
           ''lamp'' \<mapsto> (''Lamp'', [''switch.fan1'']),
           ''attic'' \<mapsto> (''Attic'', [''zzz'', ''yyy''])]\<rparr>"


text \<open>
  A larger catalog, for a bot without aliases or groups: two controllable kitchen
  entities and two attic sensors beside the kitchen sensor.
\<close>

definition house_bot :: bot where
  "house_bot =
     build_entity_index
       \<lparr>cfg = DEFAULT_CONFIG, alias_lookup = Map.empty, group_lookup = Map.empty,
        entities = [], exact_index = Map.empty\<rparr>
       (kitchen_items @
        [\<lparr>item_entity_id = ''switch.kitchen_fan'', item_friendly_name = Some ''Kitchen Fan''\<rparr>,
         \<lparr>item_entity_id = ''sensor.attic_temp'', item_friendly_name = None\<rparr>,
         \<lparr>item_entity_id = ''sensor.attic_humidity'', item_friendly_name = Some ''Attic Humidity''\<rparr>])"


text \<open>
  A process started without a configuration file, and the same process after the
  messages \<open>!alias add Lamp light.a\<close> and \<open>!alias add LAMP light.b\<close>.
\<close>

definition fresh_process :: process where
  "fresh_process = init_bot initial_store Missing"

definition after_first_add :: process where
  "after_first_add = fst (handle_alias_command fresh_process ''!alias add Lamp light.a'')"

definition after_second_add :: process where
  "after_second_add = fst (handle_alias_command after_first_add ''!alias add LAMP light.b'')"

text \<open>
  A process started on a file that already holds the alias \<open>lamp\<close>, made ready, and
  then sent \<open>!alias add Lamp light.a\<close> and \<open>!alias add lamp light.b\<close>.
\<close>

definition stored_process :: process where
  "stored_process =
     on_ready (init_bot initial_store (Parsed (Dict (Some [(''lamp'', ''light.old'')]) None))) None"

definition rewritten_process :: process where
  "rewritten_process =
     fst (handle_alias_command
            (fst (handle_alias_command stored_process ''!alias add Lamp light.a''))
            ''!alias add lamp light.b'')"


section \<open>Properties of the normalizer\<close>

lemma lower_chr_fixes_lower_alnum: "is_lower_alnum c \<Longrightarrow> lower_chr c = c"
  by (auto simp: is_lower_alnum_def is_digit_def lower_chr_def)

lemma lower_fixes_lower_alnum: "list_all is_lower_alnum s \<Longrightarrow> lower s = s"
  by (induction s) (simp_all add: lower_def lower_chr_fixes_lower_alnum)

lemma normalize_name_chars: "list_all is_lower_alnum (normalize_name s)"
  by (simp add: normalize_name_def list_all_iff)

text \<open>
  Claim C9. \<open>normalize_name\<close> is idempotent: normalizing an already normalized string
  gives the same string back, where normalizing lower-cases the input and keeps only
  the characters in \<open>[a-z0-9]\<close>.
\<close>

theorem normalize_name_idempotent:
  "normalize_name (normalize_name s) = normalize_name s"
proof -
  have kept: "list_all is_lower_alnum (normalize_name s)"
    by (rule normalize_name_chars)
  then have "lower (normalize_name s) = normalize_name s"
    by (rule lower_fixes_lower_alnum)
  then have "normalize_name (normalize_name s) = filter is_lower_alnum (normalize_name s)"
    by (simp add: normalize_name_def)
  also have "\<dots> = normalize_name s"
    using kept by (simp add: list_all_iff)
  finally show ?thesis .
qed


section \<open>Properties of the numeric suffix expansion\<close>

subsection \<open>Substrings and stripping\<close>

lemma take_length_eq_iff: "take (length sub) s = sub \<longleftrightarrow> (\<exists>b. s = sub @ b)"
proof
  assume "take (length sub) s = sub"
  then have "s = sub @ drop (length sub) s"
    by (metis append_take_drop_id)
  then show "\<exists>b. s = sub @ b" ..
next
  assume "\<exists>b. s = sub @ b"
  then show "take (length sub) s = sub" by auto
qed

lemma str_in_iff: "str_in sub s \<longleftrightarrow> (\<exists>a b. s = a @ sub @ b)"
proof (induction s)
  case Nil
  then show ?case by auto
next
  case (Cons c cs)
  show ?case
  proof
    assume "str_in sub (c # cs)"
    then consider "take (length sub) (c # cs) = sub" | "str_in sub cs" by auto
    then show "\<exists>a b. c # cs = a @ sub @ b"
    proof cases
      case 1
      then obtain b where "c # cs = sub @ b"
        using take_length_eq_iff by blast
      then have "c # cs = [] @ sub @ b" by simp
      then show ?thesis by blast
    next
      case 2
      with Cons obtain a b where "cs = a @ sub @ b" by blast
      then have "c # cs = (c # a) @ sub @ b" by simp
      then show ?thesis by blast
    qed
  next
    assume "\<exists>a b. c # cs = a @ sub @ b"
    then obtain a b where ab: "c # cs = a @ sub @ b" by blast
    show "str_in sub (c # cs)"
    proof (cases a)
      case Nil
      with ab have "take (length sub) (c # cs) = sub"
        using take_length_eq_iff[of sub "c # cs"] by auto
      then show ?thesis by simp
    next
      case (Cons x a')
      with ab have "cs = a' @ sub @ b" by simp
      with Cons.IH show ?thesis by auto
    qed
  qed
qed

lemma strip_inside: "\<exists>a b. s = a @ strip s @ b"
proof -
  let ?t = "dropWhile is_space s"
  let ?r = "rev ?t"
  have "strip s @ rev (takeWhile is_space ?r) = rev (takeWhile is_space ?r @ dropWhile is_space ?r)"
    by (simp only: strip_def rev_append)
  also have "\<dots> = rev ?r"
    by (simp only: takeWhile_dropWhile_id)
  also have "\<dots> = ?t"
    by simp
  finally have t: "?t = strip s @ rev (takeWhile is_space ?r)"
    by simp
  have "s = takeWhile is_space s @ ?t"
    by simp
  with t have "s = takeWhile is_space s @ strip s @ rev (takeWhile is_space ?r)"
    by simp
  then show ?thesis by blast
qed

lemma str_in_strip: "str_in x (strip s) \<Longrightarrow> str_in x s"
proof -
  assume "str_in x (strip s)"
  then obtain a b where ab: "strip s = a @ x @ b"
    using str_in_iff by blast
  obtain a' b' where "s = a' @ strip s @ b'"
    using strip_inside by blast
  with ab have "s = (a' @ a) @ x @ (b @ b')" by simp
  then show "str_in x s"
    using str_in_iff by blast
qed

lemma has_separator_strip: "has_separator (strip s) \<Longrightarrow> has_separator s"
  by (auto simp: has_separator_def dest: str_in_strip)

subsection \<open>The fallback of the expansion\<close>

lemma expand_example_descending: "expand_numbers_suffix ''light 5-2'' = [''light 5-2'']"
  by code_simp

lemma expand_example_plain: "expand_numbers_suffix ''kitchen light'' = [''kitchen light'']"
  by code_simp

text \<open>
  Claim C4. The documentation of \<open>expand_numbers_suffix\<close> promises ranges written
  \<open>1 to 4\<close>, so \<open>light 2 to 4\<close> should expand to \<open>light 2\<close>, \<open>light 3\<close>, \<open>light 4\<close>.
  The code replaces the word by a hyphen that still stands between two spaces; the
  split on whitespace makes the hyphen a token of its own, which is dropped, and only
  the two end points remain.
\<close>

theorem expand_numbers_suffix_to_range:
  "expand_numbers_suffix ''light 2 to 4'' = [''light 2'', ''light 4'']"
  by code_simp

text \<open>
  Claim C6, as amended. When the phrase contains none of the four separators, or the
  suffix pattern does not match the stripped phrase, or no number is extracted from the
  matched suffix, the result is the single-element list holding the phrase with leading
  and trailing whitespace stripped (the phrase itself when it has none). In particular
  \<open>light 5-2\<close> and \<open>kitchen light\<close> come back unchanged.
\<close>

theorem expand_numbers_suffix_fallback:
  "(\<not> has_separator p
      \<or> match_suffix (strip p) = None
      \<or> (\<exists>g1 nums_part. match_suffix (strip p) = Some (g1, nums_part) \<and> parse_numbers nums_part = [])
     \<longrightarrow> expand_numbers_suffix p = [strip p])
   \<and> expand_numbers_suffix ''light 5-2'' = [''light 5-2'']
   \<and> expand_numbers_suffix ''kitchen light'' = [''kitchen light'']"
proof (intro conjI impI)
  assume a: "\<not> has_separator p \<or> match_suffix (strip p) = None
      \<or> (\<exists>g1 nums_part. match_suffix (strip p) = Some (g1, nums_part) \<and> parse_numbers nums_part = [])"
  show "expand_numbers_suffix p = [strip p]"
  proof (cases "has_separator (strip p)")
    case False
    then show ?thesis by (simp add: expand_numbers_suffix_def Let_def)
  next
    case True
    then have "has_separator p" by (rule has_separator_strip)
    with a have "match_suffix (strip p) = None
      \<or> (\<exists>g1 nums_part. match_suffix (strip p) = Some (g1, nums_part) \<and> parse_numbers nums_part = [])"
      by simp
    then show ?thesis
      by (auto simp: expand_numbers_suffix_def Let_def)
  qed
next
  show "expand_numbers_suffix ''light 5-2'' = [''light 5-2'']"
    by (rule expand_example_descending)
next
  show "expand_numbers_suffix ''kitchen light'' = [''kitchen light'']"
    by (rule expand_example_plain)
qed

lemma parse_numbers_descending: "parse_numbers ''5-2'' = []"
  by code_simp

lemma match_suffix_descending: "match_suffix (strip ''light 5-2'') = Some (''light'', ''5-2'')"
  by code_simp

theorem expand_numbers_suffix_fallback_witness:
  "match_suffix (strip ''light 5-2'') = Some (''light'', ''5-2'') \<and> parse_numbers ''5-2'' = []
   \<and> expand_numbers_suffix ''light 5-2'' = [strip ''light 5-2'']"
  using expand_numbers_suffix_fallback [of "''light 5-2''"]
    parse_numbers_descending match_suffix_descending
  by blast

text \<open>
  The phrase is not always returned unchanged: a phrase with leading whitespace and no
  separator comes back stripped.
\<close>

theorem expand_numbers_suffix_unchanged_counterexample:
  "\<not> has_separator '' kitchen light''
   \<and> expand_numbers_suffix '' kitchen light'' \<noteq> ['' kitchen light'']"
  by code_simp


section \<open>Properties of the resolver\<close>

subsection \<open>The member loop and the removal of duplicates\<close>

lemma expand_members_concat:
  "expand_members b ms expanded = expanded @ concat (map (member_ids b) ms)"
  by (induction ms arbitrary: expanded)
     (auto simp: member_ids_def split: option.splits)

lemma fromkeys_step:
  "foldl (\<lambda>keys x. if x \<in> set keys then keys else keys @ [x]) acc xs
     = acc @ keep_first (filter (\<lambda>x. x \<notin> set acc) xs)"
proof (induction xs arbitrary: acc)
  case Nil
  show ?case by simp
next
  case (Cons x xs)
  show ?case
  proof (cases "x \<in> set acc")
    case True
    then show ?thesis by (simp add: Cons.IH)
  next
    case False
    have "filter (\<lambda>y. y \<notin> set (acc @ [x])) xs = filter (\<lambda>y. y \<noteq> x) (filter (\<lambda>y. y \<notin> set acc) xs)"
      by (induction xs) auto
    with False show ?thesis by (simp add: Cons.IH)
  qed
qed

lemma dict_fromkeys_keep_first: "dict_fromkeys xs = keep_first xs"
  by (simp add: dict_fromkeys_def fromkeys_step)

lemma set_keep_first: "set (keep_first xs) = set xs"
  by (induction xs rule: keep_first.induct) auto

lemma distinct_keep_first: "distinct (keep_first xs)"
  by (induction xs rule: keep_first.induct) (auto simp: set_keep_first)

text \<open>
  Claim C1. When the normalized phrase is the normalized name of a group in the group
  lookup, the result of \<open>resolve_single_target\<close> is the group's expansion and no
  candidates: every member contributes, in order, its alias's entity id, or itself
  when it contains the separator, or its single fuzzy match if there is one; the
  contributions are freed of duplicates, each id staying at its first occurrence;
  and the expansion is the result also when it is empty.
\<close>

theorem group_expansion:
  assumes "group_lookup b (normalize_name phrase) = Some (pretty, members)"
  shows "resolve_single_target b phrase = (keep_first (concat (map (member_ids b) members)), [])
         \<and> distinct (fst (resolve_single_target b phrase))"
  using assms
  by (simp add: resolve_single_target_def expand_members_concat dict_fromkeys_keep_first
        distinct_keep_first)

lemma home_downstairs_lookup:
  "group_lookup home_bot (normalize_name ''Downstairs'')
     = Some (''Downstairs'', [''Kitchen Light'', ''switch.fan1'', ''kitchen'', ''zzz'', ''switch.fan1''])"
  by code_simp

lemma home_downstairs_members:
  "keep_first (concat (map (member_ids home_bot)
      [''Kitchen Light'', ''switch.fan1'', ''kitchen'', ''zzz'', ''switch.fan1'']))
     = [''light.kitchen'', ''switch.fan1'']"
  by code_simp

theorem group_expansion_witness:
  "group_lookup home_bot (normalize_name ''Downstairs'')
     = Some (''Downstairs'', [''Kitchen Light'', ''switch.fan1'', ''kitchen'', ''zzz'', ''switch.fan1''])
   \<and> resolve_single_target home_bot ''Downstairs'' = ([''light.kitchen'', ''switch.fan1''], [])"
  using group_expansion [OF home_downstairs_lookup] home_downstairs_lookup home_downstairs_members
  by simp

text \<open>
  Claim C3. A phrase whose normalization is in both the group lookup and the alias
  lookup resolves as the group: the result is the expansion of the group's members,
  whatever the alias says. An alias in turn is used before the catalog: a phrase in
  the alias lookup and not in the group lookup resolves to the alias's entity id,
  whatever the catalog holds.
\<close>

theorem group_before_alias_before_catalog:
  "(group_lookup b (normalize_name phrase) = Some (gname, members)
      \<and> alias_lookup b (normalize_name phrase) = Some (aname, ent)
     \<longrightarrow> resolve_single_target b phrase = (dict_fromkeys (expand_members b members []), []))
   \<and> (group_lookup b (normalize_name phrase) = None
      \<and> alias_lookup b (normalize_name phrase) = Some (aname, ent)
     \<longrightarrow> resolve_single_target b phrase = ([ent], [])
        \<and> resolve_single_target (b\<lparr>entities := es, exact_index := idx\<rparr>) phrase = ([ent], []))"
  by (simp add: resolve_single_target_def)

lemma home_lamp_lookups:
  "group_lookup home_bot (normalize_name ''lamp'') = Some (''Lamp'', [''switch.fan1''])
   \<and> alias_lookup home_bot (normalize_name ''lamp'') = Some (''Lamp'', ''light.lamp'')"
  by code_simp

lemma home_lamp_members: "dict_fromkeys (expand_members home_bot [''switch.fan1''] []) = [''switch.fan1'']"
  by code_simp

lemma home_kitchen_light_lookups:
  "group_lookup home_bot (normalize_name ''kitchen light'') = None
   \<and> alias_lookup home_bot (normalize_name ''kitchen light'') = Some (''Kitchen Light'', ''light.kitchen'')"
  by code_simp

theorem group_before_alias_before_catalog_witness:
  "group_lookup home_bot (normalize_name ''lamp'') = Some (''Lamp'', [''switch.fan1''])
   \<and> alias_lookup home_bot (normalize_name ''lamp'') = Some (''Lamp'', ''light.lamp'')
   \<and> resolve_single_target home_bot ''lamp'' = ([''switch.fan1''], [])
   \<and> group_lookup home_bot (normalize_name ''kitchen light'') = None
   \<and> alias_lookup home_bot (normalize_name ''kitchen light'') = Some (''Kitchen Light'', ''light.kitchen'')
   \<and> resolve_single_target home_bot ''kitchen light'' = ([''light.kitchen''], [])"
  using group_before_alias_before_catalog
          [of home_bot "''lamp''" "''Lamp''" "[''switch.fan1'']" "''Lamp''" "''light.lamp''"]
        group_before_alias_before_catalog
          [of home_bot "''kitchen light''" "''Lamp''" "[]" "''Kitchen Light''" "''light.kitchen''"]
        home_lamp_lookups home_lamp_members home_kitchen_light_lookups
  by simp


subsection \<open>Fuzzy matching against the catalog\<close>

lemma preferred_only_filter:
  "preferred_only es = filter (\<lambda>e. domain e \<in> set preferred_domains) es"
  by (simp add: preferred_only_def preferred_domains_def)

lemma kitchen_example:
  "resolve_single_target kitchen_bot ''kitchen''
     = ([''light.kitchen''], preferred_only (substring_matches kitchen_bot ''kitchen''))
   \<and> map entity_id (substring_matches kitchen_bot ''kitchen'')
     = [''sensor.kitchen_temp'', ''light.kitchen'']"
  by code_simp

text \<open>
  Claim C2. For a name whose normalization is not empty and not in the exact index,
  take the entities whose normalized label or id contains it and restrict them to the
  preferred categories \<open>light\<close>, \<open>switch\<close>, \<open>fan\<close>. If exactly one entity is left, its id
  is the match. If more than one is left, there is no match and the candidates are
  those preferred entities. If none is left, while some entity contained the name,
  there is no match and the candidates are all the entities that contained it. With the
  catalog of \<open>sensor.kitchen_temp\<close> and \<open>light.kitchen\<close>, \<open>kitchen\<close> resolves to
  \<open>light.kitchen\<close> alone, although both entities contain it.
\<close>

theorem preferred_narrowing:
  "(normalize_name name \<noteq> [] \<and> exact_index b (normalize_name name) = None
     \<longrightarrow> (preferred_only (substring_matches b (normalize_name name)) = [e]
            \<longrightarrow> resolve_against_ha b name = (Some (entity_id e), [e]))
        \<and> (length (preferred_only (substring_matches b (normalize_name name))) > 1
            \<longrightarrow> resolve_against_ha b name
                  = (None, preferred_only (substring_matches b (normalize_name name))))
        \<and> (preferred_only (substring_matches b (normalize_name name)) = []
             \<and> substring_matches b (normalize_name name) \<noteq> []
            \<longrightarrow> resolve_against_ha b name = (None, substring_matches b (normalize_name name))))
   \<and> resolve_single_target kitchen_bot ''kitchen''
        = ([''light.kitchen''], preferred_only (substring_matches kitchen_bot ''kitchen''))
   \<and> map entity_id (substring_matches kitchen_bot ''kitchen'')
        = [''sensor.kitchen_temp'', ''light.kitchen'']"
proof (intro conjI impI)
  assume a: "normalize_name name \<noteq> [] \<and> exact_index b (normalize_name name) = None"
  assume one: "preferred_only (substring_matches b (normalize_name name)) = [e]"
  then have "substring_matches b (normalize_name name) \<noteq> []"
    by (auto simp: preferred_only_def)
  with a one show "resolve_against_ha b name = (Some (entity_id e), [e])"
    by (simp add: resolve_against_ha_def Let_def preferred_only_filter [symmetric]
          substring_matches_def [symmetric])
next
  assume a: "normalize_name name \<noteq> [] \<and> exact_index b (normalize_name name) = None"
  assume many: "length (preferred_only (substring_matches b (normalize_name name))) > 1"
  then have ne: "substring_matches b (normalize_name name) \<noteq> []"
    by (auto simp: preferred_only_def)
  from many have "preferred_only (substring_matches b (normalize_name name)) \<noteq> []"
    by auto
  with a many ne show "resolve_against_ha b name
      = (None, preferred_only (substring_matches b (normalize_name name)))"
    by (simp add: resolve_against_ha_def Let_def preferred_only_filter [symmetric]
          substring_matches_def [symmetric])
next
  assume a: "normalize_name name \<noteq> [] \<and> exact_index b (normalize_name name) = None"
  assume none: "preferred_only (substring_matches b (normalize_name name)) = []
      \<and> substring_matches b (normalize_name name) \<noteq> []"
  with a show "resolve_against_ha b name = (None, substring_matches b (normalize_name name))"
    by (simp add: resolve_against_ha_def Let_def preferred_only_filter [symmetric]
          substring_matches_def [symmetric])
next
  show "resolve_single_target kitchen_bot ''kitchen''
      = ([''light.kitchen''], preferred_only (substring_matches kitchen_bot ''kitchen''))"
    using kitchen_example by blast
next
  show "map entity_id (substring_matches kitchen_bot ''kitchen'')
      = [''sensor.kitchen_temp'', ''light.kitchen'']"
    using kitchen_example by blast
qed

lemma house_kitchen:
  "normalize_name ''Kitchen'' \<noteq> [] \<and> exact_index house_bot (normalize_name ''Kitchen'') = None
   \<and> map entity_id (preferred_only (substring_matches house_bot (normalize_name ''Kitchen'')))
       = [''light.kitchen'', ''switch.kitchen_fan'']"
  by code_simp

lemma house_attic:
  "normalize_name ''attic'' \<noteq> [] \<and> exact_index house_bot (normalize_name ''attic'') = None
   \<and> preferred_only (substring_matches house_bot (normalize_name ''attic'')) = []
   \<and> map entity_id (substring_matches house_bot (normalize_name ''attic''))
       = [''sensor.attic_temp'', ''sensor.attic_humidity'']"
  by code_simp

lemma house_light:
  "normalize_name ''kitchen l'' \<noteq> [] \<and> exact_index house_bot (normalize_name ''kitchen l'') = None
   \<and> preferred_only (substring_matches house_bot (normalize_name ''kitchen l''))
       = [index_item \<lparr>item_entity_id = ''light.kitchen'', item_friendly_name = Some ''Kitchen Light''\<rparr>]
   \<and> entity_id (index_item \<lparr>item_entity_id = ''light.kitchen'', item_friendly_name = Some ''Kitchen Light''\<rparr>)
       = ''light.kitchen''"
  by code_simp

theorem preferred_narrowing_witness:
  "normalize_name ''kitchen l'' \<noteq> [] \<and> exact_index house_bot (normalize_name ''kitchen l'') = None
   \<and> fst (resolve_against_ha house_bot ''kitchen l'') = Some ''light.kitchen''
   \<and> map entity_id (snd (resolve_against_ha house_bot ''kitchen l'')) = [''light.kitchen'']
   \<and> normalize_name ''Kitchen'' \<noteq> [] \<and> exact_index house_bot (normalize_name ''Kitchen'') = None
   \<and> fst (resolve_against_ha house_bot ''Kitchen'') = None
   \<and> map entity_id (snd (resolve_against_ha house_bot ''Kitchen''))
       = [''light.kitchen'', ''switch.kitchen_fan'']
   \<and> normalize_name ''attic'' \<noteq> [] \<and> exact_index house_bot (normalize_name ''attic'') = None
   \<and> fst (resolve_against_ha house_bot ''attic'') = None
   \<and> map entity_id (snd (resolve_against_ha house_bot ''attic''))
       = [''sensor.attic_temp'', ''sensor.attic_humidity'']"
proof -
  let ?light = "index_item \<lparr>item_entity_id = ''light.kitchen'', item_friendly_name = Some ''Kitchen Light''\<rparr>"
  have one: "resolve_against_ha house_bot ''kitchen l'' = (Some (entity_id ?light), [?light])"
    using preferred_narrowing [of "''kitchen l''" house_bot ?light] house_light by blast
  have many: "resolve_against_ha house_bot ''Kitchen''
      = (None, preferred_only (substring_matches house_bot (normalize_name ''Kitchen'')))"
  proof -
    have "length (map entity_id (preferred_only (substring_matches house_bot (normalize_name ''Kitchen'')))) > 1"
      using house_kitchen by simp
    then have "length (preferred_only (substring_matches house_bot (normalize_name ''Kitchen''))) > 1"
      by simp
    then show ?thesis
      using preferred_narrowing [of "''Kitchen''" house_bot] house_kitchen by blast
  qed
  have none: "resolve_against_ha house_bot ''attic''
      = (None, substring_matches house_bot (normalize_name ''attic''))"
  proof -
    have "map entity_id (substring_matches house_bot (normalize_name ''attic'')) \<noteq> []"
      using house_attic by simp
    then have "substring_matches house_bot (normalize_name ''attic'') \<noteq> []"
      by simp
    then show ?thesis
      using preferred_narrowing [of "''attic''" house_bot] house_attic by blast
  qed
  show ?thesis
    using one many none house_light house_kitchen house_attic by simp
qed

subsection \<open>Candidates of a group or alias match\<close>

lemma unresolved_members_concat:
  "\<forall>m\<in>set ms. member_ids b m = [] \<Longrightarrow> concat (map (member_ids b) ms) = []"
  by (induction ms) auto

text \<open>
  Claim C10. A phrase whose normalization is in the group lookup or in the alias lookup
  is resolved with an empty candidate list. So a group none of whose members resolves
  yields no entity ids and no candidates; the dispatcher's loop then records the plain
  no-match line for it and offers no close matches, and that line is the whole reply
  when the phrase is the only expanded name.
\<close>

theorem matched_phrase_has_no_candidates:
  "(group_lookup b (normalize_name phrase) \<noteq> None \<or> alias_lookup b (normalize_name phrase) \<noteq> None
      \<longrightarrow> snd (resolve_single_target b phrase) = [])
   \<and> (group_lookup b (normalize_name phrase) = Some (pretty, members)
        \<and> (\<forall>m\<in>set members. member_ids b m = [])
      \<longrightarrow> resolve_single_target b phrase = ([], [])
          \<and> dispatch_names b send user action_text (phrase # names) (successes, failures)
              = dispatch_names b send user action_text names (successes, failures @ [No_match phrase])
          \<and> (expand_numbers_suffix phrase = [phrase]
              \<longrightarrow> dispatch b send user action_text phrase = [No_match phrase]))"
proof (intro conjI impI)
  assume "group_lookup b (normalize_name phrase) \<noteq> None \<or> alias_lookup b (normalize_name phrase) \<noteq> None"
  then show "snd (resolve_single_target b phrase) = []"
    by (auto simp: resolve_single_target_def Let_def split: option.splits)
next
  assume g: "group_lookup b (normalize_name phrase) = Some (pretty, members)
      \<and> (\<forall>m\<in>set members. member_ids b m = [])"
  then have c: "concat (map (member_ids b) members) = []"
    by (simp add: unresolved_members_concat)
  from g show r: "resolve_single_target b phrase = ([], [])"
    by (simp add: resolve_single_target_def expand_members_concat dict_fromkeys_keep_first c)
  then show step: "dispatch_names b send user action_text (phrase # names) (successes, failures)
      = dispatch_names b send user action_text names (successes, failures @ [No_match phrase])"
    by simp
  assume "expand_numbers_suffix phrase = [phrase]"
  with r show "dispatch b send user action_text phrase = [No_match phrase]"
    by (simp add: dispatch_def)
qed

lemma home_attic:
  "group_lookup home_bot (normalize_name ''attic'') = Some (''Attic'', [''zzz'', ''yyy''])
   \<and> member_ids home_bot ''zzz'' = [] \<and> member_ids home_bot ''yyy'' = []
   \<and> expand_numbers_suffix ''attic'' = [''attic'']"
  by code_simp

theorem matched_phrase_has_no_candidates_witness:
  "group_lookup home_bot (normalize_name ''attic'') = Some (''Attic'', [''zzz'', ''yyy''])
   \<and> member_ids home_bot ''zzz'' = [] \<and> member_ids home_bot ''yyy'' = []
   \<and> expand_numbers_suffix ''attic'' = [''attic'']
   \<and> resolve_single_target home_bot ''attic'' = ([], [])
   \<and> dispatch home_bot (\<lambda>eid cmd user. 200) ''someone'' ''turn on'' ''attic'' = [No_match ''attic'']"
  using matched_phrase_has_no_candidates
          [of home_bot "''attic''" "''Attic''" "[''zzz'', ''yyy'']" "\<lambda>eid cmd user. 200"
              "''someone''" "''turn on''" "[]" "[]" "[]"]
        home_attic
  by simp


section \<open>Properties of the configuration store\<close>

subsection \<open>Loading\<close>

lemma load_config_fallback:
  "f \<in> {Missing, Unreadable, Malformed, Parsed Not_a_dict}
   \<Longrightarrow> load_config h f = (DEFAULT_CONFIG, h)"
  by (auto simp: load_config_def)

lemma load_config_fresh_store:
  "f \<in> {Missing, Unreadable, Malformed, Parsed Not_a_dict}
   \<Longrightarrow> (case load_config initial_store f of (c, h) \<Rightarrow> (cfg_aliases h c, cfg_groups h c)) = ([], [])"
  by (auto simp: load_config_def DEFAULT_CONFIG_def initial_store_def cfg_aliases_def cfg_groups_def)

lemma load_config_parsed:
  "(case load_config h (Parsed (Dict a g)) of (c, h') \<Rightarrow> (cfg_aliases h' c, cfg_groups h' c))
     = ((case a of None \<Rightarrow> [] | Some d \<Rightarrow> d), (case g of None \<Rightarrow> [] | Some d \<Rightarrow> d))"
  by (simp add: load_config_def Let_def cfg_aliases_def cfg_groups_def)

text \<open>
  Claim C8 says that every load that finds the file missing, unreadable or malformed
  returns the empty configuration. The configuration returned on those paths shares
  its two dictionaries with \<open>DEFAULT_CONFIG\<close>. In a process started without a file the
  first load is empty, but \<open>!alias add Lamp light.a\<close> then writes into the shared
  dictionary, and a later load that finds the file missing, unreadable or malformed
  returns a configuration that holds the alias.
\<close>

theorem load_config_after_alias_add:
  "cfg_aliases (heap fresh_process) (cfg (self fresh_process)) = []
   \<and> (case load_config (heap after_first_add) Missing of (c, h) \<Rightarrow> cfg_aliases h c)
       = [(''Lamp'', ''light.a'')]
   \<and> (case load_config (heap after_first_add) Unreadable of (c, h) \<Rightarrow> cfg_aliases h c)
       = [(''Lamp'', ''light.a'')]
   \<and> (case load_config (heap after_first_add) Malformed of (c, h) \<Rightarrow> cfg_aliases h c)
       = [(''Lamp'', ''light.a'')]"
  by code_simp

subsection \<open>Adding aliases\<close>

text \<open>
  Claim C5 says that two alias writes under names with the same normalization leave one
  alias entry, with the entity id of the second write. \<open>!alias add\<close> stores under the
  pretty name as typed, so after \<open>Lamp\<close> and \<open>LAMP\<close> the configuration, in memory and in
  the file, holds two entries. When the second name is already a key, its entry keeps
  its earlier place in the dictionary, and the lookup rebuilt from the configuration
  then answers with the entity id of the first write.
\<close>

theorem alias_add_twice_keeps_both:
  "normalize_name ''Lamp'' = normalize_name ''LAMP''
   \<and> cfg_aliases (heap after_second_add) (cfg (self after_second_add))
       = [(''Lamp'', ''light.a''), (''LAMP'', ''light.b'')]
   \<and> disk after_second_add
       = Parsed (Dict (Some [(''Lamp'', ''light.a''), (''LAMP'', ''light.b'')]) (Some []))
   \<and> normalize_name ''Lamp'' = normalize_name ''lamp''
   \<and> cfg_aliases (heap rewritten_process) (cfg (self rewritten_process))
       = [(''lamp'', ''light.b''), (''Lamp'', ''light.a'')]
   \<and> alias_lookup (self rewritten_process) (normalize_name ''lamp'') = Some (''Lamp'', ''light.a'')
   \<and> resolve_single_target (self rewritten_process) ''lamp'' = ([''light.a''], [])"
  by code_simp

subsection \<open>Deleting a name that is not stored\<close>

lemma delete_matching_none:
  "\<forall>k\<in>set keys. normalize_name k \<noteq> norm \<Longrightarrow> delete_matching norm keys d deleted = (d, deleted)"
  by (induction keys arbitrary: d deleted) auto

lemma del_tail:
  assumes "take 3 tail = ''del''"
  shows "tail \<noteq> []" and "tail \<noteq> ''list''" and "take 3 tail \<noteq> ''add''"
    and "take 3 tail \<noteq> ''set''" and "take 4 tail \<noteq> ''show''"
proof -
  show "tail \<noteq> []" using assms by auto
  show "tail \<noteq> ''list''" using assms by auto
  show "take 3 tail \<noteq> ''add''" using assms by simp
  show "take 3 tail \<noteq> ''set''" using assms by simp
  show "take 4 tail \<noteq> ''show''"
  proof
    assume "take 4 tail = ''show''"
    then have "take 3 (take 4 tail) = take 3 ''show''" by simp
    then have "take 3 tail = ''sho''" by simp
    with assms show False by simp
  qed
qed

lemma alias_dicts_same: "h\<lparr>alias_dicts := (alias_dicts h)(r := alias_dicts h r)\<rparr> = h"
  by simp

lemma group_dicts_same: "h\<lparr>group_dicts := (group_dicts h)(r := group_dicts h r)\<rparr> = h"
  by simp

lemma alias_del_not_found:
  assumes "strip (drop (length ''!alias'') (strip content)) = tail"
    and "take 3 tail = ''del''"
    and "parse_quoted_name (drop 3 tail) = (Some name, rest)"
    and "name \<noteq> []"
    and "\<forall>k\<in>set (map fst (cfg_aliases (heap p) (cfg (self p)))). normalize_name k \<noteq> normalize_name name"
  shows "handle_alias_command p content = (save_and_rebuild p (heap p), Alias_not_found)"
proof -
  have d: "delete_matching (normalize_name name) (map fst (cfg_aliases (heap p) (cfg (self p))))
      (cfg_aliases (heap p) (cfg (self p))) False = (cfg_aliases (heap p) (cfg (self p)), False)"
    using assms(5) by (rule delete_matching_none)
  have same: "(heap p)\<lparr>alias_dicts := (alias_dicts (heap p))
      (aliases (cfg (self p)) := cfg_aliases (heap p) (cfg (self p)))\<rparr> = heap p"
    unfolding cfg_aliases_def by (rule alias_dicts_same)
  show ?thesis
    unfolding handle_alias_command_def Let_def assms(1)
    using del_tail [OF assms(2)] assms(2,3,4)
    by (simp add: d same)
qed

lemma group_del_not_found:
  assumes "strip (drop (length ''!group'') (strip content)) = tail"
    and "take 3 tail = ''del''"
    and "parse_quoted_name (drop 3 tail) = (Some name, rest)"
    and "name \<noteq> []"
    and "\<forall>k\<in>set (map fst (cfg_groups (heap p) (cfg (self p)))). normalize_name k \<noteq> normalize_name name"
  shows "handle_group_command p content = (save_and_rebuild p (heap p), Group_not_found)"
proof -
  have d: "delete_matching (normalize_name name) (map fst (cfg_groups (heap p) (cfg (self p))))
      (cfg_groups (heap p) (cfg (self p))) False = (cfg_groups (heap p) (cfg (self p)), False)"
    using assms(5) by (rule delete_matching_none)
  have same: "(heap p)\<lparr>group_dicts := (group_dicts (heap p))
      (groups (cfg (self p)) := cfg_groups (heap p) (cfg (self p)))\<rparr> = heap p"
    unfolding cfg_groups_def by (rule group_dicts_same)
  show ?thesis
    unfolding handle_group_command_def Let_def assms(1)
    using del_tail [OF assms(2)] assms(2,3,4)
    by (simp add: d same)
qed

lemma save_and_rebuild_same_store:
  "heap (save_and_rebuild p (heap p)) = heap p
   \<and> cfg (self (save_and_rebuild p (heap p))) = cfg (self p)
   \<and> disk (save_and_rebuild p (heap p)) = save_config (heap p) (cfg (self p))"
  by (simp add: save_and_rebuild_def rebuild_lookups_from_cfg_def)

text \<open>
  Claim C7, as amended. A delete command (\<open>!alias del\<close> or \<open>!group del\<close>) whose name
  matches, by normalized name, no entry of the configuration replies "not found",
  leaves the dictionaries of the configuration as they were, and writes the file anew
  from that unchanged configuration. No alias or group entry is added, removed or
  modified; the file is the same afterwards when it already held the saved
  configuration.
\<close>

theorem delete_not_found:
  "(strip (drop (length ''!alias'') (strip content)) = tail \<and> take 3 tail = ''del''
      \<and> parse_quoted_name (drop 3 tail) = (Some name, rest) \<and> name \<noteq> []
      \<and> (\<forall>k\<in>set (map fst (cfg_aliases (heap p) (cfg (self p)))).
            normalize_name k \<noteq> normalize_name name)
    \<longrightarrow> snd (handle_alias_command p content) = Alias_not_found
        \<and> heap (fst (handle_alias_command p content)) = heap p
        \<and> cfg (self (fst (handle_alias_command p content))) = cfg (self p)
        \<and> disk (fst (handle_alias_command p content)) = save_config (heap p) (cfg (self p))
        \<and> (disk p = save_config (heap p) (cfg (self p))
            \<longrightarrow> disk (fst (handle_alias_command p content)) = disk p))
   \<and> (strip (drop (length ''!group'') (strip content)) = tail \<and> take 3 tail = ''del''
      \<and> parse_quoted_name (drop 3 tail) = (Some name, rest) \<and> name \<noteq> []
      \<and> (\<forall>k\<in>set (map fst (cfg_groups (heap p) (cfg (self p)))).
            normalize_name k \<noteq> normalize_name name)
    \<longrightarrow> snd (handle_group_command p content) = Group_not_found
        \<and> heap (fst (handle_group_command p content)) = heap p
        \<and> cfg (self (fst (handle_group_command p content))) = cfg (self p)
        \<and> disk (fst (handle_group_command p content)) = save_config (heap p) (cfg (self p))
        \<and> (disk p = save_config (heap p) (cfg (self p))
            \<longrightarrow> disk (fst (handle_group_command p content)) = disk p))"
proof (intro conjI impI)
  assume a: "strip (drop (length ''!alias'') (strip content)) = tail \<and> take 3 tail = ''del''
      \<and> parse_quoted_name (drop 3 tail) = (Some name, rest) \<and> name \<noteq> []
      \<and> (\<forall>k\<in>set (map fst (cfg_aliases (heap p) (cfg (self p)))).
            normalize_name k \<noteq> normalize_name name)"
  then have r: "handle_alias_command p content = (save_and_rebuild p (heap p), Alias_not_found)"
    by (intro alias_del_not_found) blast+
  show "snd (handle_alias_command p content) = Alias_not_found"
    by (simp add: r)
  show "heap (fst (handle_alias_command p content)) = heap p"
    by (simp add: r save_and_rebuild_same_store)
  show "cfg (self (fst (handle_alias_command p content))) = cfg (self p)"
    by (simp add: r save_and_rebuild_same_store)
  show w: "disk (fst (handle_alias_command p content)) = save_config (heap p) (cfg (self p))"
    by (simp add: r save_and_rebuild_same_store)
  assume "disk p = save_config (heap p) (cfg (self p))"
  with w show "disk (fst (handle_alias_command p content)) = disk p"
    by simp
next
  assume a: "strip (drop (length ''!group'') (strip content)) = tail \<and> take 3 tail = ''del''
      \<and> parse_quoted_name (drop 3 tail) = (Some name, rest) \<and> name \<noteq> []
      \<and> (\<forall>k\<in>set (map fst (cfg_groups (heap p) (cfg (self p)))).
            normalize_name k \<noteq> normalize_name name)"
  then have r: "handle_group_command p content = (save_and_rebuild p (heap p), Group_not_found)"
    by (intro group_del_not_found) blast+
  show "snd (handle_group_command p content) = Group_not_found"
    by (simp add: r)
  show "heap (fst (handle_group_command p content)) = heap p"
    by (simp add: r save_and_rebuild_same_store)
  show "cfg (self (fst (handle_group_command p content))) = cfg (self p)"
    by (simp add: r save_and_rebuild_same_store)
  show w: "disk (fst (handle_group_command p content)) = save_config (heap p) (cfg (self p))"
    by (simp add: r save_and_rebuild_same_store)
  assume "disk p = save_config (heap p) (cfg (self p))"
  with w show "disk (fst (handle_group_command p content)) = disk p"
    by simp
qed

lemma after_first_add_alias_del:
  "strip (drop (length ''!alias'') (strip ''!alias del lamp2'')) = ''del lamp2''
   \<and> take 3 ''del lamp2'' = ''del''
   \<and> parse_quoted_name (drop 3 ''del lamp2'') = (Some ''lamp2'', [])
   \<and> map fst (cfg_aliases (heap after_first_add) (cfg (self after_first_add))) = [''Lamp'']
   \<and> normalize_name ''Lamp'' \<noteq> normalize_name ''lamp2''
   \<and> disk after_first_add = save_config (heap after_first_add) (cfg (self after_first_add))
   \<and> disk after_first_add = Parsed (Dict (Some [(''Lamp'', ''light.a'')]) (Some []))"
  by code_simp

lemma after_first_add_group_del:
  "strip (drop (length ''!group'') (strip ''!group del lamp2'')) = ''del lamp2''
   \<and> map fst (cfg_groups (heap after_first_add) (cfg (self after_first_add))) = []"
  by code_simp

theorem delete_not_found_witness:
  "strip (drop (length ''!alias'') (strip ''!alias del lamp2'')) = ''del lamp2''
   \<and> strip (drop (length ''!group'') (strip ''!group del lamp2'')) = ''del lamp2''
   \<and> take 3 ''del lamp2'' = ''del''
   \<and> parse_quoted_name (drop 3 ''del lamp2'') = (Some ''lamp2'', [])
   \<and> map fst (cfg_aliases (heap after_first_add) (cfg (self after_first_add))) = [''Lamp'']
   \<and> normalize_name ''Lamp'' \<noteq> normalize_name ''lamp2''
   \<and> map fst (cfg_groups (heap after_first_add) (cfg (self after_first_add))) = []
   \<and> disk after_first_add = Parsed (Dict (Some [(''Lamp'', ''light.a'')]) (Some []))
   \<and> snd (handle_alias_command after_first_add ''!alias del lamp2'') = Alias_not_found
   \<and> disk (fst (handle_alias_command after_first_add ''!alias del lamp2'')) = disk after_first_add
   \<and> snd (handle_group_command after_first_add ''!group del lamp2'') = Group_not_found
   \<and> disk (fst (handle_group_command after_first_add ''!group del lamp2'')) = disk after_first_add"
proof -
  note a = after_first_add_alias_del
  note g = after_first_add_group_del
  have saved: "disk after_first_add = save_config (heap after_first_add) (cfg (self after_first_add))"
    using a by blast
  have "\<forall>k\<in>set (map fst (cfg_aliases (heap after_first_add) (cfg (self after_first_add)))).
          normalize_name k \<noteq> normalize_name ''lamp2''"
    using a by simp
  then have alias_part:
    "snd (handle_alias_command after_first_add ''!alias del lamp2'') = Alias_not_found
     \<and> disk (fst (handle_alias_command after_first_add ''!alias del lamp2'')) = disk after_first_add"
    using delete_not_found [of "''!alias del lamp2''" "''del lamp2''" "''lamp2''" "[]" after_first_add]
      a saved by blast
  have "\<forall>k\<in>set (map fst (cfg_groups (heap after_first_add) (cfg (self after_first_add)))).
          normalize_name k \<noteq> normalize_name ''lamp2''"
    using g by simp
  then have group_part:
    "snd (handle_group_command after_first_add ''!group del lamp2'') = Group_not_found
     \<and> disk (fst (handle_group_command after_first_add ''!group del lamp2'')) = disk after_first_add"
    using delete_not_found [of "''!group del lamp2''" "''del lamp2''" "''lamp2''" "[]" after_first_add]
      a g saved by blast
  show ?thesis
    using a g alias_part group_part by blast
qed

text \<open>
  The file does not always stay as it was: in a process started without a file, a
  delete that finds nothing creates the file.
\<close>

theorem delete_not_found_counterexample:
  "snd (handle_alias_command fresh_process ''!alias del lamp'') = Alias_not_found
   \<and> disk fresh_process = Missing
   \<and> disk (fst (handle_alias_command fresh_process ''!alias del lamp''))
       = Parsed (Dict (Some []) (Some []))
   \<and> snd (handle_group_command fresh_process ''!group del lamp'') = Group_not_found
   \<and> disk (fst (handle_group_command fresh_process ''!group del lamp''))
       = Parsed (Dict (Some []) (Some []))"
  by code_simp


section \<open>The lookups and the stored entries\<close>

lemma find_snoc:
  "find P (xs @ [x]) = (case find P xs of Some y \<Rightarrow> Some y | None \<Rightarrow> if P x then Some x else None)"
  by (induction xs) auto

text \<open>
  After \<open>rebuild_lookups_from_cfg\<close>, a non-empty normalized name is in a lookup exactly
  when some stored entry has that normalized name, and the lookup then holds the last
  such entry.
\<close>

lemma foldl_add_lookup:
  "n \<noteq> [] \<Longrightarrow>
   foldl add_lookup m d n
     = (case find (\<lambda>kv. normalize_name (fst kv) = n) (rev d) of
          Some kv \<Rightarrow> Some kv
        | None \<Rightarrow> m n)"
proof (induction d arbitrary: m)
  case Nil
  show ?case by simp
next
  case (Cons x d)
  have "add_lookup m x n = (if normalize_name (fst x) = n then Some x else m n)"
    using Cons.prems by (auto simp: add_lookup_def Let_def)
  with Cons show ?case
    by (simp add: find_snoc split: option.splits)
qed

lemma rebuilt_group_lookup:
  "n \<noteq> [] \<Longrightarrow>
   group_lookup (rebuild_lookups_from_cfg h b) n
     = find (\<lambda>kv. normalize_name (fst kv) = n) (rev (cfg_groups h (cfg b)))"
  by (simp add: rebuild_lookups_from_cfg_def foldl_add_lookup split: option.splits)

lemma rebuilt_alias_lookup:
  "n \<noteq> [] \<Longrightarrow>
   alias_lookup (rebuild_lookups_from_cfg h b) n
     = find (\<lambda>kv. normalize_name (fst kv) = n) (rev (cfg_aliases h (cfg b)))"
  by (simp add: rebuild_lookups_from_cfg_def foldl_add_lookup split: option.splits)

lemma foldl_add_lookup_empty: "foldl add_lookup m d [] = m []"
  by (induction d arbitrary: m) (auto simp: add_lookup_def Let_def)

lemma rebuilt_lookup_empty_name:
  "group_lookup (rebuild_lookups_from_cfg h b) [] = None
   \<and> alias_lookup (rebuild_lookups_from_cfg h b) [] = None"
  by (simp add: rebuild_lookups_from_cfg_def foldl_add_lookup_empty)

end
